theory Spec2Isabelle
  imports Main "HOL-Library.Word" "HOL-Library.AList"
begin

unbundle bit_operations_syntax

section \<open>Strings and the runtime's string functions\<close>

text \<open>
  Source strings are modelled as \<open>string\<close>: a list of 8-bit characters, read as
  the UTF-8 bytes of the text. The keys and tags of the FRMR data are ASCII, where one
  character is one byte; \<open>toLowerCase\<close> and \<open>toUpperCase\<close> change the
  letters A-Z and a-z and leave every other character as it is.
\<close>

definition lowerChar :: "char \<Rightarrow> char" where
  "lowerChar c =
     (if 65 \<le> (of_char c :: nat) \<and> (of_char c :: nat) \<le> 90
      then char_of ((of_char c :: nat) + 32) else c)"

definition upperChar :: "char \<Rightarrow> char" where
  "upperChar c =
     (if 97 \<le> (of_char c :: nat) \<and> (of_char c :: nat) \<le> 122
      then char_of ((of_char c :: nat) - 32) else c)"

definition toLowerCase :: "string \<Rightarrow> string" where
  "toLowerCase s = map lowerChar s"

definition toUpperCase :: "string \<Rightarrow> string" where
  "toUpperCase s = map upperChar s"

text \<open>\<open>Array.prototype.join\<close>: the elements with the separator between them.\<close>

fun join :: "string \<Rightarrow> string list \<Rightarrow> string" where
  "join sep [] = []"
| "join sep [x] = x"
| "join sep (x # y # ys) = x @ sep @ join sep (y # ys)"

text \<open>\<open>String.prototype.substring(a, b)\<close> for \<open>a \<le> b\<close>.\<close>

definition substring :: "string \<Rightarrow> nat \<Rightarrow> nat \<Rightarrow> string" where
  "substring s a b = take (b - a) (drop a s)"

text \<open>
  Decimal rendering of a number, as a template literal or \<open>String(n)\<close> gives it
  for an integer. The timeframe numbers of the source are integers.
\<close>

definition digitChar :: "nat \<Rightarrow> char" where
  "digitChar d = char_of (48 + d)"

fun stringOfNat :: "nat \<Rightarrow> string" where
  "stringOfNat n =
     (if n < 10 then [digitChar n] else stringOfNat (n div 10) @ [digitChar (n mod 10)])"

declare stringOfNat.simps [simp del]

definition stringOfInt :: "int \<Rightarrow> string" where
  "stringOfInt i = (if i < 0 then CHR ''-'' # stringOfNat (nat (- i)) else stringOfNat (nat i))"

text \<open>
  Truthiness of an optional string, as \<open>if (x)\<close> tests it: an absent value and
  the empty string are both falsy.
\<close>

definition truthy :: "string option \<Rightarrow> bool" where
  "truthy x = (case x of None \<Rightarrow> False | Some s \<Rightarrow> s \<noteq> [])"

section \<open>uuid-generator.ts\<close>

type_synonym byte = "8 word"

subsection \<open>SHA-1, the digest of \<open>createHash("sha1")\<close>\<close>

text \<open>
  The hash is the runtime's; it is modelled after FIPS 180-4: the message is padded to
  a multiple of 64 bytes, each block is expanded to 80 words and run through 80 rounds.
\<close>

definition sha1_pad :: "byte list \<Rightarrow> byte list" where
  "sha1_pad m =
     (let l = length m;
          k = (119 - l mod 64) mod 64;
          bits = (of_nat (8 * l) :: 64 word)
      in m @ [0x80] @ replicate k 0 @
         map (\<lambda>i. (ucast (drop_bit (8 * (7 - i)) bits) :: byte)) [0..<8])"

definition be32 :: "byte list \<Rightarrow> 32 word" where
  "be32 bs = foldl (\<lambda>acc b. push_bit 8 acc OR ucast b) 0 (take 4 bs)"

fun sha1_words :: "nat \<Rightarrow> byte list \<Rightarrow> 32 word list" where
  "sha1_words 0 bs = []"
| "sha1_words (Suc n) bs = be32 bs # sha1_words n (drop 4 bs)"

fun sha1_schedule :: "nat \<Rightarrow> 32 word list \<Rightarrow> 32 word list" where
  "sha1_schedule 0 w = w"
| "sha1_schedule (Suc n) w =
     (let t = length w
      in sha1_schedule n
           (w @ [word_rotl 1 (w ! (t - 3) XOR w ! (t - 8) XOR w ! (t - 14) XOR w ! (t - 16))]))"

type_synonym sha1_state = "32 word \<times> 32 word \<times> 32 word \<times> 32 word \<times> 32 word"

definition sha1_round :: "32 word list \<Rightarrow> nat \<Rightarrow> sha1_state \<Rightarrow> sha1_state" where
  "sha1_round w t s =
     (case s of (a, b, c, d, e) \<Rightarrow>
        let f = (if t < 20 then (b AND c) OR (NOT b AND d)
                 else if t < 40 then b XOR c XOR d
                 else if t < 60 then (b AND c) OR (b AND d) OR (c AND d)
                 else b XOR c XOR d);
            k = (if t < 20 then 0x5A827999
                 else if t < 40 then 0x6ED9EBA1
                 else if t < 60 then 0x8F1BBCDC
                 else 0xCA62C1D6);
            temp = word_rotl 5 a + f + e + k + w ! t
        in (temp, a, word_rotl 30 b, c, d))"

definition sha1_block :: "sha1_state \<Rightarrow> byte list \<Rightarrow> sha1_state" where
  "sha1_block h block =
     (let w = sha1_schedule 64 (sha1_words 16 block)
      in case (h, fold (sha1_round w) [0..<80] h) of
           ((h0, h1, h2, h3, h4), (a, b, c, d, e)) \<Rightarrow> (h0 + a, h1 + b, h2 + c, h3 + d, h4 + e))"

fun sha1_blocks :: "nat \<Rightarrow> sha1_state \<Rightarrow> byte list \<Rightarrow> sha1_state" where
  "sha1_blocks 0 h bs = h"
| "sha1_blocks (Suc n) h bs = sha1_blocks n (sha1_block h (take 64 bs)) (drop 64 bs)"

definition bytes32 :: "32 word \<Rightarrow> byte list" where
  "bytes32 x = map (\<lambda>i. (ucast (drop_bit (8 * (3 - i)) x) :: byte)) [0..<4]"

definition sha1 :: "byte list \<Rightarrow> byte list" where
  "sha1 m =
     (let p = sha1_pad m
      in case sha1_blocks (length p div 64)
                (0x67452301, 0xEFCDAB89, 0x98BADCFE, 0x10325476, 0xC3D2E1F0) p of
           (h0, h1, h2, h3, h4) \<Rightarrow> bytes32 h0 @ bytes32 h1 @ bytes32 h2 @ bytes32 h3 @ bytes32 h4)"

subsection \<open>Buffers and hexadecimal text\<close>

definition utf8 :: "string \<Rightarrow> byte list" where
  "utf8 s = map (\<lambda>c. of_nat (of_char c)) s"

definition hexVal :: "char \<Rightarrow> nat option" where
  "hexVal c =
     (let n = (of_char c :: nat)
      in if 48 \<le> n \<and> n \<le> 57 then Some (n - 48)
         else if 97 \<le> n \<and> n \<le> 102 then Some (n - 87)
         else if 65 \<le> n \<and> n \<le> 70 then Some (n - 55)
         else None)"

text \<open>\<open>Buffer.from(s, "hex")\<close>: pairs of hex digits, up to the first pair that is not one.\<close>

fun fromHex :: "string \<Rightarrow> byte list" where
  "fromHex (a # b # rest) =
     (case (hexVal a, hexVal b) of
        (Some x, Some y) \<Rightarrow> of_nat (16 * x + y) # fromHex rest
      | _ \<Rightarrow> [])"
| "fromHex _ = []"

definition hexDigit :: "nat \<Rightarrow> char" where
  "hexDigit n = (if n < 10 then char_of (48 + n) else char_of (87 + n))"

definition toHex :: "byte list \<Rightarrow> string" where
  "toHex bs = concat (map (\<lambda>b. [hexDigit (unat b div 16), hexDigit (unat b mod 16)]) bs)"

subsection \<open>uuidV5 and generateUUID\<close>

definition DNS_NAMESPACE :: string where
  "DNS_NAMESPACE = ''6ba7b810-9dad-11d1-80b4-00c04fd430c8''"

definition uuidV5 :: "string \<Rightarrow> string \<Rightarrow> string" where
  "uuidV5 namespace name =
     (let nsBytes = fromHex (filter (\<lambda>c. c \<noteq> CHR ''-'') namespace);
          hash0 = sha1 (nsBytes @ utf8 name);
          hash1 = hash0[6 := (hash0 ! 6 AND 0x0f) OR 0x50];
          hash2 = hash1[8 := (hash1 ! 8 AND 0x3f) OR 0x80];
          hex = toHex (take 16 hash2)
      in join ''-''
           [substring hex 0 8, substring hex 8 12, substring hex 12 16,
            substring hex 16 20, substring hex 20 32])"

datatype Namespace =
    NsCatalog | NsFrdTerm | NsFrrControl | NsKsiControl | NsMappingCollection
  | NsMappingEntry | NsParty | NsGroup | NsMapping

fun NAMESPACES :: "Namespace \<Rightarrow> string" where
  "NAMESPACES NsCatalog = uuidV5 DNS_NAMESPACE ''fedramp-frmr-catalog''"
| "NAMESPACES NsFrdTerm = uuidV5 DNS_NAMESPACE ''fedramp-frd-term''"
| "NAMESPACES NsFrrControl = uuidV5 DNS_NAMESPACE ''fedramp-frr-control''"
| "NAMESPACES NsKsiControl = uuidV5 DNS_NAMESPACE ''fedramp-ksi-control''"
| "NAMESPACES NsMappingCollection = uuidV5 DNS_NAMESPACE ''fedramp-ksi-nist-mapping''"
| "NAMESPACES NsMappingEntry = uuidV5 DNS_NAMESPACE ''fedramp-mapping-entry''"
| "NAMESPACES NsParty = uuidV5 DNS_NAMESPACE ''fedramp-party''"
| "NAMESPACES NsGroup = uuidV5 DNS_NAMESPACE ''fedramp-group''"
| "NAMESPACES NsMapping = uuidV5 DNS_NAMESPACE ''fedramp-mapping''"

definition generateUUID :: "Namespace \<Rightarrow> string \<Rightarrow> string" where
  "generateUUID ns ident = uuidV5 (NAMESPACES ns) ident"

section \<open>types.ts\<close>

text \<open>
  An optional field is an \<open>option\<close>. A \<open>Record<string, V>\<close> is the list of
  its entries in the order \<open>Object.entries\<close> enumerates them; the keys of an object
  are distinct, which \<open>distinctKeys\<close> says where a property needs it. Fields that
  no builder and no check reads or writes are left out (among them \<open>class\<close>,
  \<open>updated\<close>, a part's links, a control's sub-controls, the web names and the
  reference urls of requirements and authorities).
\<close>

subsection \<open>Shared primitives\<close>

record Property =
  prop_name :: string
  prop_value :: string
  prop_ns :: "string option"

record Link =
  link_href :: string
  link_rel :: "string option"
  link_text :: "string option"

subsection \<open>Metadata\<close>

record Party =
  party_uuid :: string
  party_type :: string
  party_name :: string
  party_short_name :: "string option"
  party_links :: "Link list option"

record Role =
  role_id :: string
  role_title :: string

record ResponsibleParty =
  rp_role_id :: string
  rp_party_uuids :: "string list"

record Metadata =
  md_title :: string
  md_last_modified :: string
  md_version :: string
  md_oscal_version :: string
  md_roles :: "Role list option"
  md_parties :: "Party list option"
  md_responsible_parties :: "ResponsibleParty list option"
  md_props :: "Property list option"

subsection \<open>Parts, controls and groups\<close>

datatype Part =
  Part (part_id: "string option") (part_name: string) (part_ns: "string option")
       (part_prose: "string option") (part_props: "Property list option")
       (part_parts: "Part list option")

record Control =
  control_id :: string
  control_title :: string
  control_props :: "Property list option"
  control_links :: "Link list option"
  control_parts :: "Part list option"

datatype Group =
  Group (group_id: "string option") (group_title: string) (group_props: "Property list option")
        (group_parts: "Part list option") (group_controls: "Control list option")
        (group_groups: "Group list option")

subsection \<open>Back matter and catalog\<close>

record Citation =
  citation_text :: string
  citation_links :: "Link list option"

record BackMatterResource =
  resource_uuid :: string
  resource_title :: "string option"
  resource_description :: "string option"
  resource_citation :: "Citation option"
  resource_props :: "Property list option"

record BackMatter =
  resources :: "BackMatterResource list"

record Catalog =
  catalog_uuid :: string
  catalog_metadata :: Metadata
  catalog_groups :: "Group list option"
  back_matter :: "BackMatter option"

record OSCALCatalog =
  catalog :: Catalog

subsection \<open>Mapping collection\<close>

record MappingResourceReference =
  mrr_type :: string
  mrr_href :: string

record ControlRef =
  ref_type :: string
  id_ref :: string

record MapEntry =
  entry_uuid :: string
  relationship :: string
  sources :: "ControlRef list"
  targets :: "ControlRef list"

record Mapping =
  mapping_uuid :: string
  source_resource :: MappingResourceReference
  target_resource :: MappingResourceReference
  maps :: "MapEntry list"

record Provenance =
  prov_method :: string
  matching_rationale :: string
  prov_status :: string
  mapping_description :: string

record MappingCollection =
  mc_uuid :: string
  mc_metadata :: Metadata
  provenance :: Provenance
  mappings :: "Mapping list"

record OSCALMappingCollection =
  mapping_collection :: MappingCollection

subsection \<open>FRMR source data\<close>

record FRMRInfo =
  info_title :: string
  info_description :: string
  info_version :: string
  info_last_updated :: string

record FRDTermEntry =
  frd_fka :: "string option"
  frd_term :: string
  frd_alts :: "string list option"
  frd_definition :: string
  frd_note :: "string option"
  frd_reference :: "string option"
  frd_reference_url :: "string option"

record Example =
  example_id :: string
  example_key_tests :: "string list option"
  example_examples :: "string list option"

record Notification =
  n_party :: string
  n_method :: string
  n_target :: string

record LevelData =
  level_statement :: string
  level_primary_key_word :: string
  level_timeframe_type :: "string option"
  level_timeframe_num :: "int option"

text \<open>
  \<open>impact\<close> is declared a string, and buildRequirementControl also accepts an
  object of boolean flags.
\<close>

datatype Impact = ImpactText string | ImpactFlags "(string \<times> bool) list"

record FRRRequirement =
  req_fka :: "string option"
  req_fkas :: "string list option"
  req_name :: "string option"
  req_statement :: "string option"
  req_primary_key_word :: "string option"
  req_terms :: "string list option"
  req_affects :: "string list option"
  req_notes :: "string list option"
  req_note :: "string option"
  req_examples :: "Example list option"
  req_following_information :: "string list option"
  req_following_information_bullets :: "string list option"
  req_notification :: "Notification list option"
  req_timeframe_type :: "string option"
  req_timeframe_num :: "int option"
  req_varies_by_level :: "(string \<times> LevelData) list option"
  req_impact :: "Impact option"
  req_danger :: "string option"

record Authority =
  auth_reference :: string
  auth_description :: string
  auth_delegation :: "string option"

record FrontMatter =
  fm_authority :: "Authority list option"
  fm_purpose :: "string option"

record FRRProcessInfo =
  pi_name :: string
  pi_short_name :: string
  pi_front_matter :: FrontMatter

type_synonym Requirements = "(string \<times> FRRRequirement) list"

type_synonym LabelMap = "(string \<times> Requirements) list"

record FRRProcess =
  process_info :: FRRProcessInfo
  process_data :: "(string \<times> LabelMap) list"

record KSIIndicator =
  ind_fka :: "string option"
  ind_name :: string
  ind_statement :: string
  ind_controls :: "string list option"
  ind_terms :: "string list option"

record KSIDomain =
  domain_id :: string
  domain_name :: string
  domain_theme :: string
  domain_indicators :: "(string \<times> KSIIndicator) list"

type_synonym FRDData = "(string \<times> (string \<times> FRDTermEntry) list) list"

record FRMRData =
  frmr_info :: FRMRInfo
  FRD_data :: FRDData
  FRR :: "(string \<times> FRRProcess) list"
  KSI :: "(string \<times> KSIDomain) list"


section \<open>catalog-builder.ts\<close>

definition FEDRAMP_NS :: string where
  "FEDRAMP_NS = ''https://fedramp.gov/ns/oscal''"

definition fProp :: "string \<Rightarrow> string \<Rightarrow> Property" where
  "fProp name val = \<lparr>prop_name = name, prop_value = val, prop_ns = Some FEDRAMP_NS\<rparr>"

text \<open>
  \<open>if (xs) for (const x of xs)\<close> runs over the elements of a present array and over
  nothing when it is absent; \<open>xs.length > 0 ? xs : undefined\<close> drops an empty array.
\<close>

definition orEmpty :: "'a list option \<Rightarrow> 'a list" where
  "orEmpty xs = (case xs of None \<Rightarrow> [] | Some ys \<Rightarrow> ys)"

definition nonEmpty :: "'a list \<Rightarrow> 'a list option" where
  "nonEmpty xs = (if xs = [] then None else Some xs)"

definition newline :: string where
  "newline = [char_of (10 :: nat)]"

subsection \<open>The glossary index\<close>

type_synonym TermMap = "string \<rightharpoonup> string"

definition registerTerm :: "string \<times> FRDTermEntry \<Rightarrow> TermMap \<Rightarrow> TermMap" where
  "registerTerm te m =
     (case te of (termId, entry) \<Rightarrow>
        let uuid = generateUUID NsFrdTerm termId;
            m1 = m(toLowerCase (frd_term entry) \<mapsto> uuid)
        in fold (\<lambda>alt m'. m'(toLowerCase alt \<mapsto> uuid)) (orEmpty (frd_alts entry)) m1)"

definition buildTermUUIDMap :: "FRDData \<Rightarrow> TermMap" where
  "buildTermUUIDMap frdData =
     fold (\<lambda>(applicability, entries) m. fold registerTerm entries m) frdData Map.empty"

subsection \<open>Links\<close>

definition linkKey :: "Link \<Rightarrow> string" where
  "linkKey link =
     link_href link @ ''|'' @ (case link_rel link of None \<Rightarrow> [] | Some r \<Rightarrow> r)"

fun dedupFrom :: "string set \<Rightarrow> Link list \<Rightarrow> Link list" where
  "dedupFrom seen [] = []"
| "dedupFrom seen (link # links) =
     (if linkKey link \<in> seen then dedupFrom seen links
      else link # dedupFrom (insert (linkKey link) seen) links)"

definition deduplicateLinks :: "Link list \<Rightarrow> Link list" where
  "deduplicateLinks links = dedupFrom {} links"

text \<open>
  The loop over the glossary-term references, written once in buildRequirementControl
  and once in buildKSIDomainGroup: the links it pushes, in order.
\<close>

definition termLinks :: "TermMap \<Rightarrow> string list \<Rightarrow> Link list" where
  "termLinks termMap terms =
     concat (map (\<lambda>term.
        case termMap (toLowerCase term) of
          None \<Rightarrow> []
        | Some uuid \<Rightarrow>
            if uuid \<noteq> []
            then [\<lparr>link_href = ''#'' @ uuid, link_rel = Some ''term'', link_text = Some term\<rparr>]
            else []) terms)"

subsection \<open>findDuplicateReqIds\<close>

text \<open>
  The \<open>Map\<close> from requirement id to the applicabilities it was seen under is a list
  of entries in insertion order: \<open>set\<close> on a present key replaces the value in
  place, on a new key it appends.
\<close>

definition noteReqId :: "string \<Rightarrow> string \<Rightarrow> (string \<times> string list) list \<Rightarrow> (string \<times> string list) list" where
  "noteReqId applicability reqId m =
     (let existing = (case map_of m reqId of None \<Rightarrow> [] | Some e \<Rightarrow> e)
      in AList.update reqId (existing @ [applicability]) m)"

definition idToApplicabilities :: "FRRProcess \<Rightarrow> (string \<times> string list) list" where
  "idToApplicabilities process =
     fold (\<lambda>(applicability, labelMap).
        fold (\<lambda>(label, requirements).
           fold (noteReqId applicability) (map fst requirements)) labelMap)
       (process_data process) []"

definition findDuplicateReqIds :: "FRRProcess \<Rightarrow> string list" where
  "findDuplicateReqIds process =
     map fst (filter (\<lambda>(ident, apps). length apps > 1) (idToApplicabilities process))"

subsection \<open>buildRequirementControl\<close>

definition levelPart :: "string \<Rightarrow> string \<times> LevelData \<Rightarrow> Part" where
  "levelPart controlId ld =
     (case ld of (level, levelData) \<Rightarrow>
        Part (Some (controlId @ ''_stmt_'' @ level)) ''item'' None
          (Some (level_statement levelData))
          (Some ([fProp ''level'' level,
                  fProp ''keyword'' (level_primary_key_word levelData)]
                 @ (if truthy (level_timeframe_type levelData)
                    then [fProp ''timeframe-type'' (the (level_timeframe_type levelData))] else [])
                 @ (case level_timeframe_num levelData of
                      None \<Rightarrow> []
                    | Some n \<Rightarrow> [fProp ''timeframe-num'' (stringOfInt n)])))
          None)"

definition itemParts :: "string \<Rightarrow> string \<Rightarrow> string list \<Rightarrow> Part list" where
  "itemParts controlId kind items =
     map (\<lambda>(i, item).
        Part (Some (controlId @ ''_stmt_'' @ kind @ ''_'' @ stringOfNat (i + 1))) ''item'' None
          (Some item) None None)
       (enumerate 0 items)"

text \<open>
  The branch on \<open>varies_by_level\<close> (lines 138 to 209): the properties it pushes on
  the control and the parts it pushes.
\<close>

definition statementProps :: "FRRRequirement \<Rightarrow> Property list" where
  "statementProps req =
     (case req_varies_by_level req of
        Some levels \<Rightarrow> []
      | None \<Rightarrow>
          (if truthy (req_primary_key_word req)
           then [fProp ''keyword'' (the (req_primary_key_word req))] else [])
          @ (if truthy (req_timeframe_type req)
             then [fProp ''timeframe-type'' (the (req_timeframe_type req))] else [])
          @ (case req_timeframe_num req of
               None \<Rightarrow> []
             | Some n \<Rightarrow> [fProp ''timeframe-num'' (stringOfInt n)]))"

definition statementParts :: "string \<Rightarrow> FRRRequirement \<Rightarrow> Part list" where
  "statementParts controlId req =
     (case req_varies_by_level req of
        Some levels \<Rightarrow>
          [Part (Some (controlId @ ''_stmt'')) ''statement'' None None None
             (Some (map (levelPart controlId) levels))]
      | None \<Rightarrow>
          (if truthy (req_statement req)
           then [Part (Some (controlId @ ''_stmt'')) ''statement'' None (req_statement req) None
                   (nonEmpty
                      (itemParts controlId ''item'' (orEmpty (req_following_information req))
                       @ itemParts controlId ''bullet''
                           (orEmpty (req_following_information_bullets req))))]
           else []))"

definition exampleProse :: "Example \<Rightarrow> string" where
  "exampleProse ex =
     join newline
       ([''**'' @ example_id ex @ ''**'']
        @ (case example_key_tests ex of
             None \<Rightarrow> []
           | Some tests \<Rightarrow> ''Key tests:'' # map (\<lambda>t. ''- '' @ t) tests)
        @ map (\<lambda>eg. ''- '' @ eg) (orEmpty (example_examples ex)))"

definition guidanceParts :: "string \<Rightarrow> FRRRequirement \<Rightarrow> Part list" where
  "guidanceParts controlId req =
     (case req_examples req of
        None \<Rightarrow> []
      | Some exs \<Rightarrow>
          if length exs > 0
          then [Part (Some (controlId @ ''_guidance'')) ''guidance'' (Some FEDRAMP_NS)
                  (Some (join (newline @ newline) (map exampleProse exs))) None None]
          else [])"

definition assessmentParts :: "string \<Rightarrow> FRRRequirement \<Rightarrow> Part list" where
  "assessmentParts controlId req =
     (let noteTexts = (if truthy (req_note req) then [the (req_note req)] else [])
                      @ orEmpty (req_notes req)
      in if length noteTexts > 0
         then [Part (Some (controlId @ ''_assessment'')) ''assessment'' (Some FEDRAMP_NS)
                 (Some (join (newline @ newline) noteTexts)) None None]
         else [])"

definition impactProps :: "FRRRequirement \<Rightarrow> Property list" where
  "impactProps req =
     (case req_impact req of
        None \<Rightarrow> []
      | Some (ImpactText s) \<Rightarrow> if s \<noteq> [] then [fProp ''impact'' s] else []
      | Some (ImpactFlags flags) \<Rightarrow>
          [fProp ''impact'' (join '','' (map fst (filter snd flags)))])"

definition notificationProps :: "FRRRequirement \<Rightarrow> Property list" where
  "notificationProps req =
     concat (map (\<lambda>(i, n).
        [fProp (''notification-'' @ stringOfNat (i + 1) @ ''-party'') (n_party n),
         fProp (''notification-'' @ stringOfNat (i + 1) @ ''-method'') (n_method n),
         fProp (''notification-'' @ stringOfNat (i + 1) @ ''-target'') (n_target n)])
       (enumerate 0 (orEmpty (req_notification req))))"

definition buildRequirementControl ::
  "string \<Rightarrow> FRRRequirement \<Rightarrow> string \<Rightarrow> string \<Rightarrow> TermMap \<Rightarrow> bool \<Rightarrow> Control" where
  "buildRequirementControl reqId req applicability label termMap needsSuffix =
     (let controlId = (if needsSuffix then toLowerCase reqId @ ''_'' @ applicability
                       else toLowerCase reqId);
          props = [\<lparr>prop_name = ''label'', prop_value = label, prop_ns = None\<rparr>,
                   fProp ''applicability'' applicability]
                  @ (if truthy (req_fka req) then [fProp ''fka'' (the (req_fka req))] else [])
                  @ map (fProp ''fka'') (orEmpty (req_fkas req))
                  @ map (fProp ''affects'') (orEmpty (req_affects req))
                  @ statementProps req
                  @ (if truthy (req_danger req) then [fProp ''danger'' (the (req_danger req))] else [])
                  @ impactProps req
                  @ notificationProps req;
          parts = statementParts controlId req @ guidanceParts controlId req
                  @ assessmentParts controlId req;
          links = termLinks termMap (orEmpty (req_terms req))
      in \<lparr>control_id = controlId,
          control_title = (if truthy (req_name req) then the (req_name req) else reqId),
          control_props = nonEmpty props,
          control_links = (if length links > 0 then Some (deduplicateLinks links) else None),
          control_parts = nonEmpty parts\<rparr>)"

subsection \<open>buildProcessGroup\<close>

definition authorityProse :: "Authority \<Rightarrow> string" where
  "authorityProse auth =
     join newline
       ([''**'' @ auth_reference auth @ ''**'', auth_description auth]
        @ (if truthy (auth_delegation auth)
           then [''_Delegation: '' @ the (auth_delegation auth) @ ''_''] else []))"

definition processParts :: "FRRProcess \<Rightarrow> Part list" where
  "processParts process =
     (let fm = pi_front_matter (process_info process)
      in (if truthy (fm_purpose fm)
          then [Part None ''overview'' None (fm_purpose fm) None None] else [])
         @ (case fm_authority fm of
              None \<Rightarrow> []
            | Some auths \<Rightarrow>
                if length auths > 0
                then [Part None ''instruction'' None
                        (Some (join (newline @ newline) (map authorityProse auths)))
                        (Some [fProp ''type'' ''authority'']) None]
                else []))"

definition processControls :: "FRRProcess \<Rightarrow> TermMap \<Rightarrow> Control list" where
  "processControls process termMap =
     (let duplicateIds = findDuplicateReqIds process
      in concat (map (\<lambda>(applicability, labelMap).
           concat (map (\<lambda>(label, requirements).
             map (\<lambda>(reqId, req).
                buildRequirementControl reqId req applicability label termMap
                  (reqId \<in> set duplicateIds)) requirements) labelMap))
          (process_data process)))"

definition buildProcessGroup :: "string \<Rightarrow> FRRProcess \<Rightarrow> TermMap \<Rightarrow> Group" where
  "buildProcessGroup processKey process termMap =
     Group (Some (toLowerCase processKey)) (pi_name (process_info process))
       (Some [fProp ''short-name'' (pi_short_name (process_info process))])
       (nonEmpty (processParts process))
       (nonEmpty (processControls process termMap))
       None"

subsection \<open>buildKSIDomainGroup\<close>

text \<open>The body of the loop over the indicators of a domain: the control it pushes.\<close>

definition indicatorControl :: "string \<Rightarrow> KSIIndicator \<Rightarrow> TermMap \<Rightarrow> Control" where
  "indicatorControl indicatorId indicator termMap =
     (let controlId = toLowerCase indicatorId;
          props = (if truthy (ind_fka indicator) then [fProp ''fka'' (the (ind_fka indicator))]
                   else []);
          parts = [Part (Some (controlId @ ''_stmt'')) ''statement'' None
                     (Some (ind_statement indicator)) None None];
          links = map (\<lambda>nistControl.
                     \<lparr>link_href = ''#'' @ nistControl, link_rel = Some ''related'',
                      link_text = Some (toUpperCase nistControl)\<rparr>)
                    (orEmpty (ind_controls indicator))
                  @ termLinks termMap (orEmpty (ind_terms indicator))
      in \<lparr>control_id = controlId,
          control_title = ind_name indicator,
          control_props = nonEmpty props,
          control_links = (if length links > 0 then Some (deduplicateLinks links) else None),
          control_parts = nonEmpty parts\<rparr>)"

definition buildKSIDomainGroup :: "string \<Rightarrow> KSIDomain \<Rightarrow> TermMap \<Rightarrow> Group" where
  "buildKSIDomainGroup domainKey domain termMap =
     Group (Some (toLowerCase (domain_id domain))) (domain_name domain)
       (Some [fProp ''theme'' (domain_theme domain)])
       None
       (nonEmpty (map (\<lambda>(indicatorId, indicator).
           indicatorControl indicatorId indicator termMap) (domain_indicators domain)))
       None"

subsection \<open>buildBackMatter\<close>

definition termResource :: "string \<times> FRDTermEntry \<Rightarrow> BackMatterResource" where
  "termResource te =
     (case te of (termId, entry) \<Rightarrow>
        \<lparr>resource_uuid = generateUUID NsFrdTerm termId,
         resource_title = Some (frd_term entry),
         resource_description = Some (frd_definition entry),
         resource_citation =
           (if truthy (frd_reference entry)
            then Some \<lparr>citation_text = the (frd_reference entry),
                       citation_links =
                         (if truthy (frd_reference_url entry)
                          then Some [\<lparr>link_href = the (frd_reference_url entry),
                                      link_rel = None, link_text = None\<rparr>]
                          else None)\<rparr>
            else None),
         resource_props =
           Some ([fProp ''term-id'' termId]
                 @ (if truthy (frd_fka entry) then [fProp ''fka'' (the (frd_fka entry))] else []))\<rparr>)"

definition buildBackMatter :: "FRDData \<Rightarrow> BackMatter" where
  "buildBackMatter frdData =
     \<lparr>resources = concat (map (\<lambda>(applicability, entries). map termResource entries) frdData)\<rparr>"

subsection \<open>buildMetadata and buildCatalog\<close>

text \<open>
  The one effect of the builders is reading the clock for \<open>last-modified\<close>; the
  timestamp \<open>now\<close> is an argument of the model.
\<close>

definition publisherParty :: Party where
  "publisherParty =
     \<lparr>party_uuid = generateUUID NsParty ''fedramp-pmo'',
      party_type = ''organization'',
      party_name = ''Federal Risk and Authorization Management Program (FedRAMP)'',
      party_short_name = Some ''FedRAMP'',
      party_links = Some [\<lparr>link_href = ''https://www.fedramp.gov'', link_rel = Some ''homepage'',
                           link_text = None\<rparr>]\<rparr>"

definition buildMetadata :: "string \<Rightarrow> FRMRData \<Rightarrow> Metadata" where
  "buildMetadata now frmr =
     \<lparr>md_title = ''FedRAMP Requirements and Recommendations (FRMR) Catalog'',
      md_last_modified = now,
      md_version = info_version (frmr_info frmr),
      md_oscal_version = ''1.2.0'',
      md_roles = Some [\<lparr>role_id = ''publisher'', role_title = ''Document Publisher''\<rparr>],
      md_parties = Some [publisherParty],
      md_responsible_parties =
        Some [\<lparr>rp_role_id = ''publisher'',
               rp_party_uuids = [generateUUID NsParty ''fedramp-pmo'']\<rparr>],
      md_props = Some [fProp ''source-version'' (info_version (frmr_info frmr)),
                       fProp ''source-last-updated'' (info_last_updated (frmr_info frmr))]\<rparr>"

definition buildCatalog :: "string \<Rightarrow> FRMRData \<Rightarrow> OSCALCatalog" where
  "buildCatalog now frmr =
     (let termMap = buildTermUUIDMap (FRD_data frmr);
          frrGroups = map (\<lambda>(processKey, process). buildProcessGroup processKey process termMap)
                        (FRR frmr);
          ksiDomainGroups = map (\<lambda>(domainKey, domain). buildKSIDomainGroup domainKey domain termMap)
                              (KSI frmr);
          ksiTopGroup = Group (Some ''key-security-indicators'') ''Key Security Indicators''
                          None None None (Some ksiDomainGroups);
          allGroups = frrGroups @ [ksiTopGroup];
          backMatter = buildBackMatter (FRD_data frmr)
      in \<lparr>catalog =
           \<lparr>catalog_uuid = generateUUID NsCatalog (''fedramp-frmr-'' @ info_version (frmr_info frmr)),
            catalog_metadata = buildMetadata now frmr,
            catalog_groups = Some allGroups,
            back_matter = Some backMatter\<rparr>\<rparr>)"

section \<open>mapping-builder.ts\<close>

definition NIST_CATALOG_HREF :: string where
  "NIST_CATALOG_HREF = ''https://raw.githubusercontent.com/usnistgov/oscal-content/main/nist.gov/SP800-53/rev5/json/NIST_SP-800-53_rev5_catalog.json''"

definition FEDRAMP_CATALOG_HREF :: string where
  "FEDRAMP_CATALOG_HREF = ''./fedramp-frmr-catalog.json''"

definition buildMappingMetadata :: "string \<Rightarrow> FRMRData \<Rightarrow> Metadata" where
  "buildMappingMetadata now frmr =
     \<lparr>md_title = ''FedRAMP KSI to NIST SP 800-53 Rev 5 Mapping'',
      md_last_modified = now,
      md_version = info_version (frmr_info frmr),
      md_oscal_version = ''1.2.0'',
      md_roles = Some [\<lparr>role_id = ''publisher'', role_title = ''Document Publisher''\<rparr>],
      md_parties = Some [publisherParty],
      md_responsible_parties =
        Some [\<lparr>rp_role_id = ''publisher'',
               rp_party_uuids = [generateUUID NsParty ''fedramp-pmo'']\<rparr>],
      md_props = None\<rparr>"

definition buildProvenance :: Provenance where
  "buildProvenance =
     \<lparr>prov_method = ''hybrid'',
      matching_rationale = ''functional'',
      prov_status = ''complete'',
      mapping_description =
        ''Maps FedRAMP Key Security Indicators to NIST SP 800-53 Rev 5 controls. ''
        @ ''KSI indicators aggregate multiple NIST controls into security outcomes.''\<rparr>"

text \<open>
  The body of the loop over the indicators: nothing when the indicator is skipped
  (\<open>continue\<close>), else the one entry pushed on \<open>maps\<close>.
\<close>

definition indicatorMaps :: "string \<times> KSIIndicator \<Rightarrow> MapEntry list" where
  "indicatorMaps ii =
     (case ii of (indicatorId, indicator) \<Rightarrow>
        (case ind_controls indicator of
           None \<Rightarrow> []
         | Some nistControls \<Rightarrow>
             if length nistControls = 0 then []
             else [\<lparr>entry_uuid = generateUUID NsMappingEntry indicatorId,
                    relationship = ''superset-of'',
                    sources = [\<lparr>ref_type = ''control'', id_ref = toLowerCase indicatorId\<rparr>],
                    targets = map (\<lambda>nistControl. \<lparr>ref_type = ''control'', id_ref = nistControl\<rparr>)
                                nistControls\<rparr>]))"

definition buildMappingCollection :: "string \<Rightarrow> FRMRData \<Rightarrow> OSCALMappingCollection" where
  "buildMappingCollection now frmr =
     (let entries = concat (map (\<lambda>(domainKey, domain).
                       concat (map indicatorMaps (domain_indicators domain))) (KSI frmr));
          mapping = \<lparr>mapping_uuid = generateUUID NsMapping ''fedramp-ksi-to-nist'',
                     source_resource = \<lparr>mrr_type = ''catalog'', mrr_href = FEDRAMP_CATALOG_HREF\<rparr>,
                     target_resource = \<lparr>mrr_type = ''catalog'', mrr_href = NIST_CATALOG_HREF\<rparr>,
                     maps = entries\<rparr>
      in \<lparr>mapping_collection =
           \<lparr>mc_uuid = generateUUID NsMappingCollection
                        (''fedramp-ksi-nist-'' @ info_version (frmr_info frmr)),
            mc_metadata = buildMappingMetadata now frmr,
            provenance = buildProvenance,
            mappings = [mapping]\<rparr>\<rparr>)"

section \<open>build-oscal.ts: validateSource\<close>

text \<open>
  validateSource receives the parsed JSON before anything is known about it, and tests
  each top-level section for absence: its argument has every section optional. A
  missing FRR section makes \<open>Object.values(data.FRR)\<close> throw before any violation is
  reported. The outcome is a value: the exception, the exit with the collected
  violations, or the return with the two counts of the log line.
\<close>

record RawInfo =
  raw_version :: "string option"

record RawFRD =
  raw_data :: "FRDData option"

record RawFRMR =
  raw_info :: "RawInfo option"
  raw_FRD :: "RawFRD option"
  raw_FRR :: "(string \<times> FRRProcess) list option"
  raw_KSI :: "(string \<times> KSIDomain) list option"

datatype Validation = TypeError | Exit "string list" | Validated nat nat

definition sectionErrors :: "RawFRMR \<Rightarrow> string list" where
  "sectionErrors d =
     (if \<not> (case raw_info d of None \<Rightarrow> False | Some i \<Rightarrow> truthy (raw_version i))
      then [''Missing info.version''] else [])
     @ (if \<not> (case raw_FRD d of None \<Rightarrow> False | Some f \<Rightarrow> raw_data f \<noteq> None)
        then [''Missing FRD.data section''] else [])
     @ (if raw_FRR d = None \<or> length (the (raw_FRR d)) = 0
        then [''Missing or empty FRR section''] else [])
     @ (if raw_KSI d = None \<or> length (the (raw_KSI d)) = 0
        then [''Missing or empty KSI section''] else [])"

definition requirementErrors :: "string \<times> FRRRequirement \<Rightarrow> string list" where
  "requirementErrors rr =
     (case rr of (reqId, req) \<Rightarrow>
        if \<not> truthy (req_statement req) \<and> req_varies_by_level req = None
        then [''Requirement '' @ reqId @ '' has no statement or varies_by_level'']
        else [])"

definition allRequirements :: "(string \<times> FRRProcess) list \<Rightarrow> (string \<times> FRRRequirement) list" where
  "allRequirements procs =
     concat (map (\<lambda>(processKey, proc).
        concat (map (\<lambda>(applicability, labelMap).
           concat (map (\<lambda>(label, requirements). requirements) labelMap))
          (process_data proc))) procs)"

definition validateSource :: "RawFRMR \<Rightarrow> Validation" where
  "validateSource d =
     (case raw_FRR d of
        None \<Rightarrow> TypeError
      | Some procs \<Rightarrow>
          let errors = sectionErrors d @ concat (map requirementErrors (allRequirements procs));
              reqCount = length (allRequirements procs)
          in if length errors > 0 then Exit errors
             else Validated reqCount (length (the (raw_KSI d))))"

section \<open>Vocabulary of the properties\<close>

subsection \<open>Reading the outputs\<close>

definition statementPartsOf :: "Control \<Rightarrow> Part list" where
  "statementPartsOf c = filter (\<lambda>p. part_name p = ''statement'') (orEmpty (control_parts c))"

definition hasLevelProp :: "Part \<Rightarrow> bool" where
  "hasLevelProp p = (\<exists>pr \<in> set (orEmpty (part_props p)). prop_name pr = ''level'')"

fun groupControls :: "Group \<Rightarrow> Control list" where
  "groupControls (Group gid title props parts controls groups) =
     orEmpty controls @ (case groups of None \<Rightarrow> [] | Some gs \<Rightarrow> concat (map groupControls gs))"




text \<open>The links of a control with a given target and relation.\<close>

definition linksWith :: "string \<Rightarrow> string \<Rightarrow> Control \<Rightarrow> Link list" where
  "linksWith h r c =
     filter (\<lambda>l. link_href l = h \<and> link_rel l = Some r) (orEmpty (control_links c))"



definition catalogResources :: "OSCALCatalog \<Rightarrow> BackMatterResource list" where
  "catalogResources oc = (case back_matter (catalog oc) of None \<Rightarrow> [] | Some bm \<Rightarrow> resources bm)"

definition mappingEntries :: "OSCALMappingCollection \<Rightarrow> MapEntry list" where
  "mappingEntries mc = concat (map maps (mappings (mapping_collection mc)))"

subsection \<open>Reading the source\<close>

text \<open>
  The requirements of a process with the applicability and the label they stand under,
  in the order the loops of buildProcessGroup visit them; and the places (applicability,
  label) at which a requirement key occurs.
\<close>

definition partitionRequirements ::
  "string \<Rightarrow> LabelMap \<Rightarrow> (string \<times> string \<times> string \<times> FRRRequirement) list" where
  "partitionRequirements applicability labelMap =
     concat (map (\<lambda>(label, requirements).
        map (\<lambda>(reqId, req). (applicability, label, reqId, req)) requirements) labelMap)"

definition dataRequirements ::
  "(string \<times> LabelMap) list \<Rightarrow> (string \<times> string \<times> string \<times> FRRRequirement) list" where
  "dataRequirements d =
     concat (map (\<lambda>(applicability, labelMap). partitionRequirements applicability labelMap) d)"













definition allIndicators :: "FRMRData \<Rightarrow> (string \<times> KSIIndicator) list" where
  "allIndicators frmr = concat (map (\<lambda>(domainKey, domain). domain_indicators domain) (KSI frmr))"

text \<open>A requirement without the fields that only the flat-statement branch reads.\<close>

definition dropFlatFields :: "FRRRequirement \<Rightarrow> FRRRequirement" where
  "dropFlatFields req =
     req\<lparr>req_statement := None, req_primary_key_word := None, req_timeframe_type := None,
         req_timeframe_num := None, req_following_information := None,
         req_following_information_bullets := None\<rparr>"

subsection \<open>Example documents\<close>

definition blankRequirement :: FRRRequirement where
  "blankRequirement =
     \<lparr>req_fka = None, req_fkas = None, req_name = None, req_statement = None,
      req_primary_key_word = None, req_terms = None, req_affects = None, req_notes = None,
      req_note = None, req_examples = None, req_following_information = None,
      req_following_information_bullets = None, req_notification = None,
      req_timeframe_type = None, req_timeframe_num = None, req_varies_by_level = None,
      req_impact = None, req_danger = None\<rparr>"

definition flatRequirement :: FRRRequirement where
  "flatRequirement =
     blankRequirement\<lparr>req_statement := Some ''Providers MUST publish the list.'',
        req_primary_key_word := Some ''MUST'',
        req_following_information := Some [''the name'', ''the date'']\<rparr>"

definition variantRequirement :: FRRRequirement where
  "variantRequirement =
     blankRequirement\<lparr>req_varies_by_level :=
        Some [(''low'', \<lparr>level_statement = ''Providers SHOULD report yearly.'',
                          level_primary_key_word = ''SHOULD'',
                          level_timeframe_type = None, level_timeframe_num = None\<rparr>),
              (''high'', \<lparr>level_statement = ''Providers MUST report monthly.'',
                           level_primary_key_word = ''MUST'',
                           level_timeframe_type = Some ''month'', level_timeframe_num = Some 1\<rparr>)]\<rparr>"

definition bothRequirement :: FRRRequirement where
  "bothRequirement =
     variantRequirement\<lparr>req_statement := Some ''Providers MUST report.'',
        req_primary_key_word := Some ''MUST'',
        req_timeframe_type := Some ''day'',
        req_timeframe_num := Some 3,
        req_following_information := Some [''the name''],
        req_following_information_bullets := Some [''the date'']\<rparr>"

definition exampleProcessInfo :: FRRProcessInfo where
  "exampleProcessInfo =
     \<lparr>pi_name = ''Example Process'', pi_short_name = ''EXP'',
      pi_front_matter = \<lparr>fm_authority = None, fm_purpose = None\<rparr>\<rparr>"

definition incompleteSource :: RawFRMR where
  "incompleteSource =
     \<lparr>raw_info = Some \<lparr>raw_version = Some ''1.0''\<rparr>,
      raw_FRD = Some \<lparr>raw_data = Some []\<rparr>,
      raw_FRR = Some [(''EXP'',
         \<lparr>process_info = exampleProcessInfo,
          process_data = [(''both'', [(''general'',
             [(''EXP-01'', flatRequirement), (''EXP-02'', blankRequirement),
              (''EXP-03'', variantRequirement)])])]\<rparr>)],
      raw_KSI = None\<rparr>"

definition exampleTerm :: FRDTermEntry where
  "exampleTerm =
     \<lparr>frd_fka = None, frd_term = ''Example Term'', frd_alts = Some [''ET''],
      frd_definition = ''A term used as an example.'', frd_note = None,
      frd_reference = None, frd_reference_url = None\<rparr>"

definition exampleIndicator :: KSIIndicator where
  "exampleIndicator =
     \<lparr>ind_fka = None, ind_name = ''Example Indicator'',
      ind_statement = ''The provider keeps an example.'',
      ind_controls = Some [''ac-2''], ind_terms = None\<rparr>"

definition termRequirement :: FRRRequirement where
  "termRequirement =
     blankRequirement\<lparr>req_statement := Some ''Providers MUST define every ET.'',
        req_terms := Some [''ET'']\<rparr>"

text \<open>
  The minimal input of the round-trip scenario: one glossary term with one alias, one
  requirement with a flat statement that refers to the alias, one indicator with one
  external control reference.
\<close>

definition minimalSource :: FRMRData where
  "minimalSource =
     \<lparr>frmr_info = \<lparr>info_title = ''FRMR'', info_description = ''Example data'',
                    info_version = ''1.0'', info_last_updated = ''2026-01-01''\<rparr>,
      FRD_data = [(''both'', [(''FRD-EXT'', exampleTerm)])],
      FRR = [(''EXP'',
         \<lparr>process_info = exampleProcessInfo,
          process_data = [(''both'', [(''general'', [(''EXP-01'', termRequirement)])])]\<rparr>)],
      KSI = [(''EXA'',
         \<lparr>domain_id = ''KSI-EXA'', domain_name = ''Example Domain'', domain_theme = ''Examples'',
          domain_indicators = [(''KSI-EXA-01'', exampleIndicator)]\<rparr>)]\<rparr>"





section \<open>Properties\<close>

subsection \<open>Auxiliary facts\<close>

lemma orEmpty_simps [simp]: "orEmpty None = []" "orEmpty (Some xs) = xs"
  by (simp_all add: orEmpty_def)

lemma orEmpty_nonEmpty [simp]: "orEmpty (nonEmpty xs) = xs"
  by (simp add: orEmpty_def nonEmpty_def)

lemma control_id_build:
  "control_id (buildRequirementControl reqId req app label tm ns) =
     (if ns then toLowerCase reqId @ ''_'' @ app else toLowerCase reqId)"
  by (simp add: buildRequirementControl_def Let_def)

lemma toLowerCase_Nil [simp]: "toLowerCase [] = []"
  by (simp add: toLowerCase_def)

lemma toLowerCase_Cons [simp]: "toLowerCase (c # cs) = lowerChar c # toLowerCase cs"
  by (simp add: toLowerCase_def)

lemmas char_eval = lowerChar_def upperChar_def char_of_def bit_Suc_0_iff

lemma uuidV5_nonempty: "uuidV5 ns name \<noteq> []"
  by (simp add: uuidV5_def Let_def)

lemma generateUUID_nonempty [simp]: "generateUUID ns k \<noteq> []"
  by (simp add: generateUUID_def uuidV5_nonempty)

subsection \<open>The source validator\<close>

lemma requirementErrors_concat:
  "concat (map requirementErrors rs) =
   map (\<lambda>rr. ''Requirement '' @ fst rr @ '' has no statement or varies_by_level'')
     (filter (\<lambda>rr. \<not> truthy (req_statement (snd rr)) \<and> req_varies_by_level (snd rr) = None) rs)"
  by (induction rs) (auto simp: requirementErrors_def)

text \<open>
  C5. A source document whose indicators section is missing, whose other sections are
  present, and which holds exactly one requirement with neither a flat statement nor
  level-variant statements: validation exits with exactly two violations, the one for
  the missing section and the one naming the requirement.
\<close>

theorem validateSource_two_violations:
  assumes info: "raw_info d = Some i" "truthy (raw_version i)"
    and frd: "raw_FRD d = Some f" "raw_data f \<noteq> None"
    and frr: "raw_FRR d = Some procs" "procs \<noteq> []"
    and ksi: "raw_KSI d = None"
    and one: "filter (\<lambda>rr. \<not> truthy (req_statement (snd rr)) \<and> req_varies_by_level (snd rr) = None)
                (allRequirements procs) = [(reqId, req)]"
  shows "validateSource d =
           Exit [''Missing or empty KSI section'',
                 ''Requirement '' @ reqId @ '' has no statement or varies_by_level'']"
proof -
  have s: "sectionErrors d = [''Missing or empty KSI section'']"
    using info frd frr ksi by (simp add: sectionErrors_def)
  have r: "concat (map requirementErrors (allRequirements procs)) =
             [''Requirement '' @ reqId @ '' has no statement or varies_by_level'']"
    by (simp add: requirementErrors_concat one)
  show ?thesis
    using frr by (simp add: validateSource_def s r Let_def)
qed

theorem validateSource_two_violations_witness:
  "raw_KSI incompleteSource = None
   \<and> filter (\<lambda>rr. \<not> truthy (req_statement (snd rr)) \<and> req_varies_by_level (snd rr) = None)
        (allRequirements (the (raw_FRR incompleteSource))) = [(''EXP-02'', blankRequirement)]
   \<and> validateSource incompleteSource =
        Exit [''Missing or empty KSI section'',
              ''Requirement EXP-02 has no statement or varies_by_level'']"
proof -
  have one: "filter (\<lambda>rr. \<not> truthy (req_statement (snd rr)) \<and> req_varies_by_level (snd rr) = None)
        (allRequirements (the (raw_FRR incompleteSource))) = [(''EXP-02'', blankRequirement)]"
    by (simp add: incompleteSource_def allRequirements_def flatRequirement_def
        variantRequirement_def blankRequirement_def truthy_def)
  have "validateSource incompleteSource =
        Exit [''Missing or empty KSI section'',
              ''Requirement '' @ ''EXP-02'' @ '' has no statement or varies_by_level'']"
  proof (rule validateSource_two_violations)
    show "raw_info incompleteSource = Some \<lparr>raw_version = Some ''1.0''\<rparr>"
      by (simp add: incompleteSource_def)
    show "truthy (raw_version \<lparr>raw_version = Some ''1.0''\<rparr>)"
      by (simp add: truthy_def)
    show "raw_FRD incompleteSource = Some \<lparr>raw_data = Some []\<rparr>"
      by (simp add: incompleteSource_def)
    show "raw_data \<lparr>raw_data = Some []\<rparr> \<noteq> None"
      by simp
    show "raw_FRR incompleteSource = Some (the (raw_FRR incompleteSource))"
      by (simp add: incompleteSource_def)
    show "the (raw_FRR incompleteSource) \<noteq> []"
      by (simp add: incompleteSource_def)
    show "raw_KSI incompleteSource = None"
      by (simp add: incompleteSource_def)
    show "filter (\<lambda>rr. \<not> truthy (req_statement (snd rr)) \<and> req_varies_by_level (snd rr) = None)
        (allRequirements (the (raw_FRR incompleteSource))) = [(''EXP-02'', blankRequirement)]"
      by (rule one)
  qed
  with one show ?thesis by (simp add: incompleteSource_def)
qed

subsection \<open>The statement of a requirement control\<close>

lemma guidance_not_statement [simp]:
  "filter (\<lambda>p. part_name p = ''statement'') (guidanceParts cid req) = []"
  by (simp add: guidanceParts_def split: option.splits)

lemma assessment_not_statement [simp]:
  "filter (\<lambda>p. part_name p = ''statement'') (assessmentParts cid req) = []"
  by (simp add: assessmentParts_def Let_def)

lemma statementParts_all_statement [simp]:
  "filter (\<lambda>p. part_name p = ''statement'') (statementParts cid req) = statementParts cid req"
  by (simp add: statementParts_def split: option.splits)

lemma statementPartsOf_build:
  "statementPartsOf (buildRequirementControl reqId req app label tm ns) =
     statementParts (control_id (buildRequirementControl reqId req app label tm ns)) req"
  by (simp add: statementPartsOf_def buildRequirementControl_def Let_def)

lemma itemParts_no_props: "kid \<in> set (itemParts cid kind items) \<Longrightarrow> part_props kid = None"
  by (auto simp: itemParts_def)

text \<open>
  C3. A requirement with level-variant statements gives one "statement" part without
  prose whose children are one "item" part per level, in order, each with that
  level's prose and level property. A requirement with only a flat statement gives one
  "statement" part with the statement as prose, and none of its children carries a
  property (so none is a level variant). No control has two statement parts, and no
  statement part has both prose and a level-variant child.
\<close>

theorem statement_shapes_exclusive:
  fixes reqId req app label tm ns
  defines "c \<equiv> buildRequirementControl reqId req app label tm ns"
  shows "(\<forall>levels. req_varies_by_level req = Some levels \<longrightarrow>
            (\<exists>kids. statementPartsOf c =
                      [Part (Some (control_id c @ ''_stmt'')) ''statement'' None None None (Some kids)]
                  \<and> list_all2 (\<lambda>kid ld. part_name kid = ''item''
                                  \<and> part_prose kid = Some (level_statement (snd ld))
                                  \<and> fProp ''level'' (fst ld) \<in> set (orEmpty (part_props kid)))
                       kids levels))
       \<and> (req_varies_by_level req = None \<and> truthy (req_statement req) \<longrightarrow>
            (\<exists>p. statementPartsOf c = [p] \<and> part_prose p = req_statement req
                \<and> (\<forall>kid \<in> set (orEmpty (part_parts p)). part_props kid = None)))
       \<and> length (statementPartsOf c) \<le> 1
       \<and> (\<forall>p \<in> set (statementPartsOf c).
            \<not> (part_prose p \<noteq> None \<and> (\<exists>kid \<in> set (orEmpty (part_parts p)). hasLevelProp kid)))"
proof -
  let ?cid = "control_id c"
  let ?variant = "\<lambda>kid ld. part_name kid = ''item''
                    \<and> part_prose kid = Some (level_statement (snd ld))
                    \<and> fProp ''level'' (fst ld) \<in> set (orEmpty (part_props kid))"
  have sp: "statementPartsOf c = statementParts ?cid req"
    unfolding c_def by (rule statementPartsOf_build)
  have a: "\<forall>levels. req_varies_by_level req = Some levels \<longrightarrow>
            (\<exists>kids. statementPartsOf c =
                      [Part (Some (?cid @ ''_stmt'')) ''statement'' None None None (Some kids)]
                  \<and> list_all2 ?variant kids levels)"
  proof (intro allI impI)
    fix levels assume v: "req_varies_by_level req = Some levels"
    have "list_all2 ?variant (map (levelPart ?cid) levels) levels"
      by (induction levels) (auto simp: levelPart_def)
    then show "\<exists>kids. statementPartsOf c =
                      [Part (Some (?cid @ ''_stmt'')) ''statement'' None None None (Some kids)]
                  \<and> list_all2 ?variant kids levels"
      using v by (simp add: sp statementParts_def)
  qed
  have b: "req_varies_by_level req = None \<and> truthy (req_statement req) \<longrightarrow>
            (\<exists>p. statementPartsOf c = [p] \<and> part_prose p = req_statement req
                \<and> (\<forall>kid \<in> set (orEmpty (part_parts p)). part_props kid = None))"
    by (auto simp: sp statementParts_def dest: itemParts_no_props)
  have c1: "length (statementPartsOf c) \<le> 1"
    by (simp add: sp statementParts_def split: option.splits)
  have d: "\<forall>p \<in> set (statementPartsOf c).
            \<not> (part_prose p \<noteq> None \<and> (\<exists>kid \<in> set (orEmpty (part_parts p)). hasLevelProp kid))"
    by (auto simp: sp statementParts_def hasLevelProp_def split: option.splits if_splits
             dest!: itemParts_no_props)
  from a b c1 d show ?thesis by blast
qed

theorem statement_shapes_exclusive_witness:
  "(\<exists>k1 k2. statementPartsOf
        (buildRequirementControl ''EXP-03'' variantRequirement ''both'' ''general'' Map.empty False) =
          [Part (Some ''exp-03_stmt'') ''statement'' None None None (Some [k1, k2])]
       \<and> part_prose k1 = Some ''Providers SHOULD report yearly.''
       \<and> part_prose k2 = Some ''Providers MUST report monthly.'')
   \<and> (\<exists>p. statementPartsOf
        (buildRequirementControl ''EXP-01'' flatRequirement ''both'' ''general'' Map.empty False) = [p]
       \<and> part_prose p = Some ''Providers MUST publish the list.'')"
  using statement_shapes_exclusive [where req = variantRequirement and reqId = "''EXP-03''"
      and app = "''both''" and label = "''general''" and tm = Map.empty and ns = False]
    statement_shapes_exclusive [where req = flatRequirement and reqId = "''EXP-01''"
      and app = "''both''" and label = "''general''" and tm = Map.empty and ns = False]
  by (auto simp: variantRequirement_def flatRequirement_def blankRequirement_def truthy_def
      control_id_build char_eval list_all2_Cons2)

subsection \<open>A requirement with both kinds of statement\<close>

lemma notificationProps_names:
  "pr \<in> set (notificationProps req) \<Longrightarrow>
     prop_name pr \<notin> {''keyword'', ''timeframe-type'', ''timeframe-num''}"
  by (auto simp: notificationProps_def fProp_def)

lemma impactProps_names:
  assumes "pr \<in> set (impactProps req)"
  shows "prop_name pr \<notin> {''keyword'', ''timeframe-type'', ''timeframe-num''}"
proof (cases "req_impact req")
  case None
  with assms show ?thesis by (simp add: impactProps_def)
next
  case (Some i)
  with assms show ?thesis
    by (cases i) (auto simp: impactProps_def fProp_def split: if_splits)
qed

text \<open>
  C10. A requirement that carries both a flat statement and level-variant statements:
  the validator's check of it reports nothing, and whenever validateSource exits, its
  violations are those of the sections followed by one for each requirement that has
  neither kind of statement, and no other. The control built from such a requirement
  is the control built from the same requirement without its flat statement, keyword,
  timeframe and follow-up lists. Its one statement part has no prose and holds the
  per-level parts, and no property of the control is a keyword or timeframe property.
\<close>

theorem both_statement_kinds_variant_wins:
  fixes reqId req app label tm ns
  defines "c \<equiv> buildRequirementControl reqId req app label tm ns"
  assumes flat: "truthy (req_statement req)"
    and variant: "req_varies_by_level req = Some levels"
  shows "requirementErrors (reqId, req) = []
       \<and> (\<forall>d procs errs. raw_FRR d = Some procs \<and> validateSource d = Exit errs \<longrightarrow>
             errs = sectionErrors d
               @ map (\<lambda>rr. ''Requirement '' @ fst rr @ '' has no statement or varies_by_level'')
                   (filter (\<lambda>rr. \<not> truthy (req_statement (snd rr))
                                 \<and> req_varies_by_level (snd rr) = None)
                      (allRequirements procs)))
       \<and> c = buildRequirementControl reqId (dropFlatFields req) app label tm ns
       \<and> statementPartsOf c =
           [Part (Some (control_id c @ ''_stmt'')) ''statement'' None None None
              (Some (map (levelPart (control_id c)) levels))]
       \<and> (\<forall>pr \<in> set (orEmpty (control_props c)).
             prop_name pr \<notin> {''keyword'', ''timeframe-type'', ''timeframe-num''})"
proof -
  have a: "requirementErrors (reqId, req) = []"
    using variant by (simp add: requirementErrors_def)
  have b: "\<forall>d procs errs. raw_FRR d = Some procs \<and> validateSource d = Exit errs \<longrightarrow>
             errs = sectionErrors d
               @ map (\<lambda>rr. ''Requirement '' @ fst rr @ '' has no statement or varies_by_level'')
                   (filter (\<lambda>rr. \<not> truthy (req_statement (snd rr))
                                 \<and> req_varies_by_level (snd rr) = None)
                      (allRequirements procs))"
    by (auto simp: validateSource_def Let_def requirementErrors_concat split: if_splits)
  have sp: "statementProps (dropFlatFields req) = statementProps req"
    using variant by (simp add: statementProps_def dropFlatFields_def)
  have spa: "\<And>cid. statementParts cid (dropFlatFields req) = statementParts cid req"
    using variant by (simp add: statementParts_def dropFlatFields_def)
  have g: "\<And>cid. guidanceParts cid (dropFlatFields req) = guidanceParts cid req"
    by (simp add: guidanceParts_def dropFlatFields_def)
  have as: "\<And>cid. assessmentParts cid (dropFlatFields req) = assessmentParts cid req"
    by (simp add: assessmentParts_def dropFlatFields_def)
  have i: "impactProps (dropFlatFields req) = impactProps req"
    by (simp add: impactProps_def dropFlatFields_def)
  have n: "notificationProps (dropFlatFields req) = notificationProps req"
    by (simp add: notificationProps_def dropFlatFields_def)
  have c: "c = buildRequirementControl reqId (dropFlatFields req) app label tm ns"
    unfolding c_def buildRequirementControl_def sp spa g as i n
    by (simp add: dropFlatFields_def)
  have d: "statementPartsOf c =
           [Part (Some (control_id c @ ''_stmt'')) ''statement'' None None None
              (Some (map (levelPart (control_id c)) levels))]"
    unfolding c_def statementPartsOf_build using variant by (simp add: statementParts_def)
  have e: "\<forall>pr \<in> set (orEmpty (control_props c)).
             prop_name pr \<notin> {''keyword'', ''timeframe-type'', ''timeframe-num''}"
  proof
    fix pr assume "pr \<in> set (orEmpty (control_props c))"
    then consider "pr \<in> set (notificationProps req)" | "pr \<in> set (impactProps req)"
      | "prop_name pr \<in> {''label'', ''applicability'', ''fka'', ''affects'', ''danger''}"
      using variant
      by (auto simp: c_def buildRequirementControl_def Let_def statementProps_def fProp_def
          split: if_splits)
    then show "prop_name pr \<notin> {''keyword'', ''timeframe-type'', ''timeframe-num''}"
    proof cases
      case 1 then show ?thesis by (rule notificationProps_names)
    next
      case 2 then show ?thesis by (rule impactProps_names)
    next
      case 3 then show ?thesis by auto
    qed
  qed
  from a b c d e show ?thesis by blast
qed

theorem both_statement_kinds_variant_wins_witness:
  "truthy (req_statement bothRequirement)
   \<and> req_varies_by_level bothRequirement \<noteq> None
   \<and> requirementErrors (''EXP-04'', bothRequirement) = []
   \<and> buildRequirementControl ''EXP-04'' bothRequirement ''both'' ''general'' Map.empty False =
       buildRequirementControl ''EXP-04'' variantRequirement ''both'' ''general'' Map.empty False
   \<and> map part_prose (statementPartsOf
        (buildRequirementControl ''EXP-04'' bothRequirement ''both'' ''general'' Map.empty False)) =
       [None]"
proof -
  have t: "truthy (req_statement bothRequirement)"
    by (simp add: bothRequirement_def truthy_def)
  have v: "req_varies_by_level bothRequirement =
             Some (the (req_varies_by_level variantRequirement))"
    by (simp add: bothRequirement_def variantRequirement_def)
  have d: "dropFlatFields bothRequirement = variantRequirement"
    by (simp add: dropFlatFields_def bothRequirement_def variantRequirement_def
        blankRequirement_def)
  note w = both_statement_kinds_variant_wins [OF t v, of "''EXP-04''" "''both''"
        "''general''" Map.empty False]
  from w have e: "requirementErrors (''EXP-04'', bothRequirement) = []"
    by blast
  from w have b: "buildRequirementControl ''EXP-04'' bothRequirement ''both'' ''general'' Map.empty False =
       buildRequirementControl ''EXP-04'' variantRequirement ''both'' ''general'' Map.empty False"
    by (simp add: d)
  let ?c = "buildRequirementControl ''EXP-04'' bothRequirement ''both'' ''general'' Map.empty False"
  from w have "statementPartsOf ?c =
      [Part (Some (control_id ?c @ ''_stmt'')) ''statement'' None None None
         (Some (map (levelPart (control_id ?c)) (the (req_varies_by_level variantRequirement))))]"
    by blast
  then have p: "map part_prose (statementPartsOf ?c) = [None]"
    by simp
  from t v e b p show ?thesis by simp
qed

subsection \<open>The mapping collection\<close>

lemma mappingEntries_build:
  "mappingEntries (buildMappingCollection now frmr) = concat (map indicatorMaps (allIndicators frmr))"
proof -
  have "concat (map (\<lambda>(domainKey, domain). concat (map indicatorMaps (domain_indicators domain))) ds)
        = concat (map indicatorMaps (concat (map (\<lambda>(domainKey, domain). domain_indicators domain) ds)))"
    for ds :: "(string \<times> KSIDomain) list"
    by (induction ds) auto
  then show ?thesis
    by (simp add: mappingEntries_def buildMappingCollection_def allIndicators_def Let_def)
qed



subsection \<open>The round-trip scenario\<close>

lemma catalogResources_build:
  "catalogResources (buildCatalog now frmr) = resources (buildBackMatter (FRD_data frmr))"
  by (simp add: catalogResources_def buildCatalog_def Let_def)

lemma catalog_groups_build:
  "orEmpty (catalog_groups (catalog (buildCatalog now frmr))) =
     map (\<lambda>(processKey, process).
            buildProcessGroup processKey process (buildTermUUIDMap (FRD_data frmr))) (FRR frmr)
     @ [Group (Some ''key-security-indicators'') ''Key Security Indicators'' None None None
          (Some (map (\<lambda>(domainKey, domain).
             buildKSIDomainGroup domainKey domain (buildTermUUIDMap (FRD_data frmr))) (KSI frmr)))]"
  by (simp add: buildCatalog_def Let_def)

text \<open>
  C8. For the minimal input (one glossary term "Example Term" with alias "ET", one
  requirement with a flat statement referring to "ET", one indicator with the control
  reference "ac-2"), whatever the timestamp: the catalog has exactly one back-matter
  resource, its process group has exactly one control and the links of that control
  include the "term" link to the resource; the mapping collection has exactly one entry,
  with the one source "ksi-exa-01" and the one target "ac-2".
\<close>

theorem round_trip_minimal:
  "\<exists>r g ksi c e.
      catalogResources (buildCatalog now minimalSource) = [r]
    \<and> resource_uuid r = generateUUID NsFrdTerm ''FRD-EXT''
    \<and> resource_title r = Some ''Example Term''
    \<and> orEmpty (catalog_groups (catalog (buildCatalog now minimalSource))) = [g, ksi]
    \<and> group_id g = Some ''exp'' \<and> group_controls g = Some [c]
    \<and> control_id c = ''exp-01''
    \<and> \<lparr>link_href = ''#'' @ resource_uuid r, link_rel = Some ''term'', link_text = Some ''ET''\<rparr>
         \<in> set (orEmpty (control_links c))
    \<and> mappingEntries (buildMappingCollection now minimalSource) = [e]
    \<and> map id_ref (sources e) = [''ksi-exa-01'']
    \<and> map id_ref (targets e) = [''ac-2'']"
proof -
  let ?u = "generateUUID NsFrdTerm ''FRD-EXT''"
  let ?tm = "buildTermUUIDMap (FRD_data minimalSource)"
  have res: "catalogResources (buildCatalog now minimalSource) = [termResource (''FRD-EXT'', exampleTerm)]"
    by (simp add: catalogResources_build buildBackMatter_def minimalSource_def)
  have tm: "?tm = [''example term'' \<mapsto> ?u, ''et'' \<mapsto> ?u]"
    by (simp add: buildTermUUIDMap_def registerTerm_def minimalSource_def exampleTerm_def
        Let_def char_eval)
  have links: "termLinks ?tm [''ET''] =
      [\<lparr>link_href = ''#'' @ ?u, link_rel = Some ''term'', link_text = Some ''ET''\<rparr>]"
    by (simp add: tm termLinks_def char_eval)
  have cl: "control_links (buildRequirementControl ''EXP-01'' termRequirement ''both'' ''general'' ?tm False)
      = Some [\<lparr>link_href = ''#'' @ ?u, link_rel = Some ''term'', link_text = Some ''ET''\<rparr>]"
    unfolding buildRequirementControl_def Let_def
    by (simp add: termRequirement_def blankRequirement_def links deduplicateLinks_def)
  have dup: "findDuplicateReqIds \<lparr>process_info = exampleProcessInfo,
          process_data = [(''both'', [(''general'', [(''EXP-01'', termRequirement)])])]\<rparr> = []"
    by (simp add: findDuplicateReqIds_def idToApplicabilities_def noteReqId_def)
  have gs: "orEmpty (catalog_groups (catalog (buildCatalog now minimalSource))) =
      [buildProcessGroup ''EXP'' (snd (hd (FRR minimalSource))) ?tm,
       Group (Some ''key-security-indicators'') ''Key Security Indicators'' None None None
          (Some (map (\<lambda>(domainKey, domain). buildKSIDomainGroup domainKey domain ?tm)
             (KSI minimalSource)))]"
    unfolding catalog_groups_build by (simp add: minimalSource_def)
  have pc: "group_controls (buildProcessGroup ''EXP'' (snd (hd (FRR minimalSource))) ?tm) =
      Some [buildRequirementControl ''EXP-01'' termRequirement ''both'' ''general'' ?tm False]"
    by (simp add: buildProcessGroup_def processControls_def minimalSource_def dup nonEmpty_def)
  have gid: "group_id (buildProcessGroup ''EXP'' (snd (hd (FRR minimalSource))) ?tm) = Some ''exp''"
    by (simp add: buildProcessGroup_def char_eval)
  have cid: "control_id (buildRequirementControl ''EXP-01'' termRequirement ''both'' ''general'' ?tm False)
      = ''exp-01''"
    by (simp add: control_id_build char_eval)
  have me: "mappingEntries (buildMappingCollection now minimalSource) =
      indicatorMaps (''KSI-EXA-01'', exampleIndicator)"
    by (simp add: mappingEntries_build allIndicators_def minimalSource_def)
  have im: "indicatorMaps (''KSI-EXA-01'', exampleIndicator) =
      [\<lparr>entry_uuid = generateUUID NsMappingEntry ''KSI-EXA-01'', relationship = ''superset-of'',
        sources = [\<lparr>ref_type = ''control'', id_ref = ''ksi-exa-01''\<rparr>],
        targets = [\<lparr>ref_type = ''control'', id_ref = ''ac-2''\<rparr>]\<rparr>]"
    by (simp add: indicatorMaps_def exampleIndicator_def char_eval)
  let ?c = "buildRequirementControl ''EXP-01'' termRequirement ''both'' ''general'' ?tm False"
  show ?thesis
    apply (rule exI [of _ "termResource (''FRD-EXT'', exampleTerm)"])
    apply (rule exI [of _ "buildProcessGroup ''EXP'' (snd (hd (FRR minimalSource))) ?tm"])
    apply (rule exI [of _ "Group (Some ''key-security-indicators'') ''Key Security Indicators''
          None None None (Some (map (\<lambda>(domainKey, domain). buildKSIDomainGroup domainKey domain ?tm)
             (KSI minimalSource)))"])
    apply (rule exI [of _ ?c])
    apply (rule exI [of _ "hd (indicatorMaps (''KSI-EXA-01'', exampleIndicator))"])
    apply (simp add: res gs pc gid cid cl me im)
    apply (simp add: termResource_def exampleTerm_def)
    done
qed

subsection \<open>Deduplicated links\<close>

lemma dedupFrom_subset: "set (dedupFrom seen ls) \<subseteq> set ls"
  by (induction ls arbitrary: seen) auto

lemma dedupFrom_count:
  "length (filter (\<lambda>l. linkKey l = k) (dedupFrom seen ls)) =
     (if k \<notin> seen \<and> k \<in> linkKey ` set ls then 1 else 0)"
proof (induction ls arbitrary: seen)
  case Nil
  then show ?case by simp
next
  case (Cons l ls)
  show ?case
  proof (cases "linkKey l \<in> seen")
    case True
    then show ?thesis using Cons.IH [of seen] by auto
  next
    case False
    then show ?thesis using Cons.IH [of "insert (linkKey l) seen"] by auto
  qed
qed

lemma termLinks_rel: "l \<in> set (termLinks tm ts) \<Longrightarrow> link_rel l = Some ''term''"
  by (auto simp: termLinks_def split: option.splits if_splits)

lemma termLinks_member:
  "t \<in> set ts \<Longrightarrow> tm (toLowerCase t) = Some u \<Longrightarrow> u \<noteq> [] \<Longrightarrow>
     \<lparr>link_href = ''#'' @ u, link_rel = Some ''term'', link_text = Some t\<rparr> \<in> set (termLinks tm ts)"
  by (auto simp: termLinks_def intro!: bexI [of _ t])

lemma key_term: "link_rel l = Some ''term'' \<Longrightarrow>
    (linkKey l = h @ ''|term'') = (link_href l = h \<and> link_rel l = Some ''term'')"
  by (simp add: linkKey_def)

lemma key_related: "link_rel l = Some ''related'' \<Longrightarrow>
    (linkKey l = h @ ''|term'') = (link_href l = h \<and> link_rel l = Some ''term'')"
proof -
  assume r: "link_rel l = Some ''related''"
  have "(link_href l @ ''|relate'') @ [CHR ''d''] \<noteq> (h @ ''|ter'') @ [CHR ''m'']"
    by (simp only: append1_eq_conv) simp
  then show ?thesis using r by (simp add: linkKey_def)
qed

lemma dedup_term_count:
  assumes rels: "\<forall>l \<in> set ls. link_rel l = Some ''term'' \<or> link_rel l = Some ''related''"
    and mem: "\<lparr>link_href = h, link_rel = Some ''term'', link_text = x\<rparr> \<in> set ls"
  shows "length (filter (\<lambda>l. link_href l = h \<and> link_rel l = Some ''term'') (deduplicateLinks ls)) = 1"
proof -
  have eq: "filter (\<lambda>l. link_href l = h \<and> link_rel l = Some ''term'') (deduplicateLinks ls)
        = filter (\<lambda>l. linkKey l = h @ ''|term'') (deduplicateLinks ls)"
  proof (rule filter_cong [OF refl])
    fix l assume "l \<in> set (deduplicateLinks ls)"
    then have "l \<in> set ls" using dedupFrom_subset by (auto simp: deduplicateLinks_def)
    with rels have "link_rel l = Some ''term'' \<or> link_rel l = Some ''related''" by blast
    then show "(link_href l = h \<and> link_rel l = Some ''term'') = (linkKey l = h @ ''|term'')"
      using key_term key_related by blast
  qed
  have "h @ ''|term'' \<in> linkKey ` set ls"
    using mem by (force simp: linkKey_def)
  then have "length (filter (\<lambda>l. linkKey l = h @ ''|term'') (deduplicateLinks ls)) = 1"
    by (simp add: deduplicateLinks_def dedupFrom_count)
  then show ?thesis by (simp only: eq)
qed

lemma minimal_index:
  "buildTermUUIDMap (FRD_data minimalSource) =
     [''example term'' \<mapsto> generateUUID NsFrdTerm ''FRD-EXT'',
      ''et'' \<mapsto> generateUUID NsFrdTerm ''FRD-EXT'']"
  by (simp add: buildTermUUIDMap_def registerTerm_def minimalSource_def exampleTerm_def
      Let_def char_eval)

text \<open>
  C6. A requirement, or an indicator, with two glossary-term references (at two places
  of its list) that the index resolves to the same resource id: the links of the built
  control hold exactly one link with that target and the relation "term". A reference
  resolves when the index has a non-empty id for its lowercased text.
\<close>

theorem term_links_deduplicated:
  assumes ij: "i < j" "j < length ts"
    and ri: "tm (toLowerCase (ts ! i)) = Some u"
    and rj: "tm (toLowerCase (ts ! j)) = Some u"
    and u: "u \<noteq> []"
  shows "(req_terms req = Some ts \<longrightarrow>
            length (linksWith (''#'' @ u) ''term''
                      (buildRequirementControl reqId req app label tm ns)) = 1)
       \<and> (ind_terms ind = Some ts \<longrightarrow>
            length (linksWith (''#'' @ u) ''term'' (indicatorControl indicatorId ind tm)) = 1)"
proof -
  have "ts ! i \<in> set ts" using ij by simp
  then have mem: "\<lparr>link_href = ''#'' @ u, link_rel = Some ''term'', link_text = Some (ts ! i)\<rparr>
      \<in> set (termLinks tm ts)"
    using ri u by (rule termLinks_member)
  have a: "length (linksWith (''#'' @ u) ''term''
                      (buildRequirementControl reqId req app label tm ns)) = 1"
    if "req_terms req = Some ts"
  proof -
    have ne: "termLinks tm ts \<noteq> []" using mem by auto
    have "length (filter (\<lambda>l. link_href l = ''#'' @ u \<and> link_rel l = Some ''term'')
             (deduplicateLinks (termLinks tm ts))) = 1"
      using mem by (intro dedup_term_count) (auto dest: termLinks_rel)
    then show ?thesis
      using that ne by (simp add: linksWith_def buildRequirementControl_def Let_def)
  qed
  have b: "length (linksWith (''#'' @ u) ''term'' (indicatorControl indicatorId ind tm)) = 1"
    if "ind_terms ind = Some ts"
  proof -
    let ?related = "map (\<lambda>nistControl.
                     \<lparr>link_href = ''#'' @ nistControl, link_rel = Some ''related'',
                      link_text = Some (toUpperCase nistControl)\<rparr>)
                    (orEmpty (ind_controls ind))"
    have ne: "?related @ termLinks tm ts \<noteq> []" using mem by auto
    have "length (filter (\<lambda>l. link_href l = ''#'' @ u \<and> link_rel l = Some ''term'')
             (deduplicateLinks (?related @ termLinks tm ts))) = 1"
      using mem by (intro dedup_term_count) (auto dest: termLinks_rel)
    then show ?thesis
      using that ne by (simp add: linksWith_def indicatorControl_def Let_def)
  qed
  from a b show ?thesis by blast
qed

theorem term_links_deduplicated_witness:
  "buildTermUUIDMap (FRD_data minimalSource) (toLowerCase ([''ET'', ''Example Term''] ! 0)) =
     Some (generateUUID NsFrdTerm ''FRD-EXT'')
   \<and> buildTermUUIDMap (FRD_data minimalSource) (toLowerCase ([''ET'', ''Example Term''] ! 1)) =
     Some (generateUUID NsFrdTerm ''FRD-EXT'')
   \<and> length (linksWith (''#'' @ generateUUID NsFrdTerm ''FRD-EXT'') ''term''
        (buildRequirementControl ''EXP-01''
           (termRequirement\<lparr>req_terms := Some [''ET'', ''Example Term'']\<rparr>) ''both'' ''general''
           (buildTermUUIDMap (FRD_data minimalSource)) False)) = 1
   \<and> length (linksWith (''#'' @ generateUUID NsFrdTerm ''FRD-EXT'') ''term''
        (indicatorControl ''KSI-EXA-01''
           (exampleIndicator\<lparr>ind_terms := Some [''ET'', ''Example Term'']\<rparr>)
           (buildTermUUIDMap (FRD_data minimalSource)))) = 1"
proof -
  let ?ts = "[''ET'', ''Example Term'']"
  let ?tm = "buildTermUUIDMap (FRD_data minimalSource)"
  let ?u = "generateUUID NsFrdTerm ''FRD-EXT''"
  have i: "?tm (toLowerCase (?ts ! 0)) = Some ?u"
    by (simp add: minimal_index char_eval)
  have j: "?tm (toLowerCase (?ts ! 1)) = Some ?u"
    by (simp add: minimal_index char_eval)
  have lt: "(0::nat) < 1" "1 < length ?ts"
    by simp_all
  note w = term_links_deduplicated [OF lt i j generateUUID_nonempty,
      of "termRequirement\<lparr>req_terms := Some ?ts\<rparr>" "''EXP-01''" "''both''" "''general''" False
         "exampleIndicator\<lparr>ind_terms := Some ?ts\<rparr>" "''KSI-EXA-01''"]
  from w i j show ?thesis by simp
qed

subsection \<open>Duplicate requirement ids\<close>


lemma dataRequirements_Nil [simp]: "dataRequirements [] = []"
  by (simp add: dataRequirements_def)


lemma partitionRequirements_Nil [simp]: "partitionRequirements a [] = []"
  by (simp add: partitionRequirements_def)

lemma partitionRequirements_Cons [simp]:
  "partitionRequirements a ((l, reqs) # lm) =
     map (\<lambda>(reqId, req). (a, l, reqId, req)) reqs @ partitionRequirements a lm"
  by (simp add: partitionRequirements_def)








lemma group_controls_build [simp]:
  "orEmpty (group_controls (buildProcessGroup pk p tm)) = processControls p tm"
  by (simp add: buildProcessGroup_def)





subsection \<open>Collision disambiguation\<close>














subsection \<open>Glossary links and the back matter\<close>











lemma groupControls_process [simp]:
  "groupControls (buildProcessGroup pk p tm) = processControls p tm"
  by (simp add: buildProcessGroup_def)

lemma groupControls_domain [simp]:
  "groupControls (buildKSIDomainGroup dk d tm) =
     map (\<lambda>(indicatorId, indicator). indicatorControl indicatorId indicator tm) (domain_indicators d)"
  by (simp add: buildKSIDomainGroup_def)






subsection \<open>Unique ids\<close>























end
